theory Spec2Isabelle
  imports Main "HOL-Library.Word" "HOL-Library.Sublist"
begin

unbundle bit_operations_syntax

text \<open>
  The fight-analysis client \<open>services/geminiService.ts\<close>: the encoder
  \<open>fileToGenerativePart\<close>, which turns an uploaded video into an inline payload, and
  \<open>analyzeFights\<close>, which sends one request with an instruction, a response schema and
  two videos to the provider and parses the answer. The browser's \<open>FileReader\<close>, the
  provider and \<open>JSON.parse\<close> are not code of the service; they are modelled from their
  standards (File API, RFC 2397, RFC 4648, ECMA-404, ECMA-262) as far as the service
  depends on them.
\<close>

section \<open>JavaScript strings\<close>

text \<open>
  The service is TypeScript running in a browser. A JavaScript string is a sequence of
  16-bit code units, so every string of the service (names, the weight class, the prompt,
  the data URL of a file, the text of the provider's response) is a list of 16-bit words.
  \<open>js\<close> writes a string literal of the source as such a list.
\<close>

type_synonym code_unit = "16 word"
type_synonym jsstring = "code_unit list"
type_synonym byte = "8 word"

definition js :: "string \<Rightarrow> jsstring" where
  "js s = map of_char s"

text \<open>
  \<open>s.split(sep)\<close> for a separator of one code unit: the pieces of \<open>s\<close> between the
  occurrences of \<open>sep\<close>. The result is never empty (\<open>"".split(",")\<close> is \<open>[""]\<close>);
  the second branch of the \<open>case\<close> is there for totality only.
\<close>

fun split :: "jsstring \<Rightarrow> code_unit \<Rightarrow> jsstring list" where
  "split [] sep = [[]]"
| "split (c # cs) sep =
     (if c = sep then [] # split cs sep
      else (case split cs sep of
              p # ps \<Rightarrow> (c # p) # ps
            | [] \<Rightarrow> [[c]]))"

text \<open>\<open>xs[i]\<close> on a JavaScript array: \<open>undefined\<close> (here \<open>None\<close>) out of range.\<close>

definition at_index :: "'a list \<Rightarrow> nat \<Rightarrow> 'a option" where
  "at_index xs i = (if i < length xs then Some (xs ! i) else None)"

text \<open>
  \<open>s.trim()\<close> removes the code units of WhiteSpace and LineTerminator (ECMA-262) from
  both ends.
\<close>

definition is_js_space :: "code_unit \<Rightarrow> bool" where
  "is_js_space c \<longleftrightarrow>
     c \<in> {0x09, 0x0A, 0x0B, 0x0C, 0x0D, 0x20, 0xA0, 0x1680, 0x2028, 0x2029,
          0x202F, 0x205F, 0x3000, 0xFEFF} \<or> (0x2000 \<le> c \<and> c \<le> 0x200A)"

definition trim :: "jsstring \<Rightarrow> jsstring" where
  "trim s = rev (dropWhile is_js_space (rev (dropWhile is_js_space s)))"

section \<open>Values that can be thrown, and promises\<close>

text \<open>
  The event a \<open>FileReader\<close> hands to its \<open>onerror\<close> handler; it carries the name of
  \<open>reader.error\<close> (for example \<open>NotReadableError\<close>).
\<close>

datatype progress_event = ProgressEvent jsstring

text \<open>
  What the service throws or rejects with: an error object, given by the name of its
  constructor and its message (\<open>new Error(m)\<close> is \<open>ErrorObject (js ''Error'') m\<close>), or
  the event object of a failed file read. The provider may reject with any such value.
\<close>

datatype thrown =
    ErrorObject jsstring jsstring
  | EventObject progress_event

text \<open>
  The state a promise has reached once the environment has delivered all it will deliver:
  an \<open>await\<close> on a promise that stays \<open>Pending\<close> never resumes.
\<close>

datatype ('a, 'e) promise = Pending | Fulfilled 'a | Rejected 'e

text \<open>\<open>resolve\<close> and \<open>reject\<close> settle a pending promise and do nothing to a settled one.\<close>

fun resolve :: "'a \<Rightarrow> ('a, 'e) promise \<Rightarrow> ('a, 'e) promise" where
  "resolve v Pending = Fulfilled v"
| "resolve v p = p"

fun reject :: "'e \<Rightarrow> ('a, 'e) promise \<Rightarrow> ('a, 'e) promise" where
  "reject e Pending = Rejected e"
| "reject e p = p"

section \<open>The encoder: \<open>fileToGenerativePart\<close>\<close>

record File =
  name :: jsstring
  type :: jsstring
  bytes :: "byte list"

text \<open>\<open>reader.result\<close> has the type \<open>string | ArrayBuffer | null\<close>.\<close>

datatype reader_result =
    ResultString jsstring
  | ResultArrayBuffer "byte list"
  | ResultNull

text \<open>
  What \<open>reader.readAsDataURL(file)\<close> leads to (File API): the read completes and
  \<open>loadend\<close> fires with \<open>reader.result\<close> set, or the read fails and \<open>error\<close> fires,
  followed by \<open>loadend\<close> with \<open>reader.result\<close> null. The service registers handlers for
  \<open>loadend\<close> and \<open>error\<close> only, so these are the events it sees, in the order fired.
\<close>

datatype read_outcome = Loaded reader_result | Failed progress_event

datatype reader_event = LoadEndEvent reader_result | ErrorEvent progress_event

fun events_of :: "read_outcome \<Rightarrow> reader_event list" where
  "events_of (Loaded r) = [LoadEndEvent r]"
| "events_of (Failed ev) = [ErrorEvent ev, LoadEndEvent ResultNull]"

text \<open>The two handlers of the promise executor (lines 13 to 21 of the source).\<close>

definition comma :: code_unit where
  "comma = 0x2C"

fun onloadend :: "reader_result \<Rightarrow> (jsstring option, thrown) promise
                    \<Rightarrow> (jsstring option, thrown) promise" where
  "onloadend (ResultString s) p = resolve (at_index (split s comma) 1) p"
| "onloadend r p =
     reject (ErrorObject (js ''Error'') (js ''Failed to read file as base64 string.'')) p"

definition onerror :: "progress_event \<Rightarrow> (jsstring option, thrown) promise
                    \<Rightarrow> (jsstring option, thrown) promise" where
  "onerror error p = reject (EventObject error) p"

fun dispatch :: "(jsstring option, thrown) promise \<Rightarrow> reader_event
                   \<Rightarrow> (jsstring option, thrown) promise" where
  "dispatch p (LoadEndEvent r) = onloadend r p"
| "dispatch p (ErrorEvent ev) = onerror ev p"

text \<open>
  The payload: \<open>{ inlineData: { mimeType, data } }\<close>. \<open>data\<close> is what the promise was
  resolved with, which is \<open>undefined\<close> (\<open>None\<close>) when \<open>reader.result.split(",")[1]\<close> is.
\<close>

record inlineData =
  mimeType :: jsstring
  data :: "jsstring option"

definition fileToGenerativePart :: "read_outcome \<Rightarrow> File \<Rightarrow> (inlineData, thrown) promise" where
  "fileToGenerativePart outcome file =
     (case foldl dispatch Pending (events_of outcome) of
        Pending \<Rightarrow> Pending
      | Rejected e \<Rightarrow> Rejected e
      | Fulfilled base64EncodedData \<Rightarrow>
          Fulfilled \<lparr>mimeType = type file, data = base64EncodedData\<rparr>)"

section \<open>\<open>JSON.parse\<close>\<close>

text \<open>
  The value \<open>JSON.parse\<close> returns. A number keeps the text of its token: the conversion
  to an IEEE double is not modelled. An object is the list of its properties in the order
  they were first created.
\<close>

datatype json =
    JNull
  | JBool bool
  | JNumber jsstring
  | JString jsstring
  | JArray "json list"
  | JObject "(jsstring \<times> json) list"

datatype token =
    LBrace | RBrace | LBracket | RBracket | Colon | Comma
  | StringToken jsstring
  | NumberToken jsstring
  | TrueToken | FalseToken | NullToken

definition is_digit :: "code_unit \<Rightarrow> bool" where
  "is_digit c \<longleftrightarrow> 0x30 \<le> c \<and> c \<le> 0x39"

definition hex_value :: "code_unit \<Rightarrow> code_unit option" where
  "hex_value c =
     (if 0x30 \<le> c \<and> c \<le> 0x39 then Some (c - 0x30)
      else if 0x41 \<le> c \<and> c \<le> 0x46 then Some (c - 0x41 + 10)
      else if 0x61 \<le> c \<and> c \<le> 0x66 then Some (c - 0x61 + 10)
      else None)"

definition hex4 :: "code_unit \<Rightarrow> code_unit \<Rightarrow> code_unit \<Rightarrow> code_unit \<Rightarrow> code_unit option" where
  "hex4 a b c d =
     (case (hex_value a, hex_value b, hex_value c, hex_value d) of
        (Some h1, Some h2, Some h3, Some h4) \<Rightarrow>
          Some (push_bit 12 h1 OR push_bit 8 h2 OR push_bit 4 h3 OR h4)
      | _ \<Rightarrow> None)"

text \<open>The code unit a one-letter escape stands for: \<open>\" \\ \/ \b \f \n \r \t\<close>.\<close>

definition unescape :: "code_unit \<Rightarrow> code_unit option" where
  "unescape e =
     (if e = 0x22 then Some 0x22 else if e = 0x5C then Some 0x5C
      else if e = 0x2F then Some 0x2F else if e = 0x62 then Some 0x08
      else if e = 0x66 then Some 0x0C else if e = 0x6E then Some 0x0A
      else if e = 0x72 then Some 0x0D else if e = 0x74 then Some 0x09
      else None)"

text \<open>
  The rest of a string token, after its opening quote: the decoded string and the input
  after the closing quote. Control characters below U+0020 are not allowed unescaped.
\<close>

fun lex_string :: "jsstring \<Rightarrow> jsstring \<Rightarrow> (jsstring \<times> jsstring) option" where
  "lex_string acc [] = None"
| "lex_string acc (c # cs) =
     (if c = 0x22 then Some (rev acc, cs)
      else if c = 0x5C then
        (case cs of
           [] \<Rightarrow> None
         | e # cs' \<Rightarrow>
             (if e = 0x75 then
                (case cs' of
                   h1 # h2 # h3 # h4 # cs'' \<Rightarrow>
                     (case hex4 h1 h2 h3 h4 of
                        None \<Rightarrow> None
                      | Some u \<Rightarrow> lex_string (u # acc) cs'')
                 | _ \<Rightarrow> None)
              else (case unescape e of
                      None \<Rightarrow> None
                    | Some u \<Rightarrow> lex_string (u # acc) cs')))
      else if c < 0x20 then None
      else lex_string (c # acc) cs)"

text \<open>
  A number token: \<open>-? (0 | [1-9][0-9]*) (. [0-9]+)? ([eE] [+-]? [0-9]+)?\<close>. Each part
  returns the text it has read and the input that follows.
\<close>

definition lex_int :: "jsstring \<Rightarrow> (jsstring \<times> jsstring) option" where
  "lex_int s =
     (let ds = takeWhile is_digit s; r = dropWhile is_digit s
      in if ds = [] \<or> (hd ds = 0x30 \<and> tl ds \<noteq> []) then None else Some (ds, r))"

definition lex_frac :: "jsstring \<Rightarrow> (jsstring \<times> jsstring) option" where
  "lex_frac s =
     (case s of
        c # cs \<Rightarrow>
          (if c = 0x2E then
             (let ds = takeWhile is_digit cs
              in if ds = [] then None else Some (c # ds, dropWhile is_digit cs))
           else Some ([], s))
      | [] \<Rightarrow> Some ([], s))"

definition lex_digits1 :: "jsstring \<Rightarrow> jsstring \<Rightarrow> (jsstring \<times> jsstring) option" where
  "lex_digits1 pre s =
     (let ds = takeWhile is_digit s
      in if ds = [] then None else Some (pre @ ds, dropWhile is_digit s))"

definition lex_exp :: "jsstring \<Rightarrow> (jsstring \<times> jsstring) option" where
  "lex_exp s =
     (case s of
        c # cs \<Rightarrow>
          (if c = 0x65 \<or> c = 0x45 then
             (case cs of
                g # cs' \<Rightarrow>
                  (if g = 0x2B \<or> g = 0x2D then lex_digits1 [c, g] cs'
                   else lex_digits1 [c] cs)
              | [] \<Rightarrow> None)
           else Some ([], s))
      | [] \<Rightarrow> Some ([], s))"

definition lex_number :: "jsstring \<Rightarrow> (jsstring \<times> jsstring) option" where
  "lex_number s =
     (let (sign, r0) = (case s of
                          c # cs \<Rightarrow> if c = 0x2D then ([c], cs) else ([], s)
                        | [] \<Rightarrow> ([], s))
      in case lex_int r0 of
           None \<Rightarrow> None
         | Some (i, r1) \<Rightarrow>
             (case lex_frac r1 of
                None \<Rightarrow> None
              | Some (f, r2) \<Rightarrow>
                  (case lex_exp r2 of
                     None \<Rightarrow> None
                   | Some (e, r3) \<Rightarrow> Some (sign @ i @ f @ e, r3))))"

definition is_json_space :: "code_unit \<Rightarrow> bool" where
  "is_json_space c \<longleftrightarrow> c = 0x20 \<or> c = 0x09 \<or> c = 0x0A \<or> c = 0x0D"

definition punctuation :: "code_unit \<Rightarrow> token option" where
  "punctuation c =
     (if c = 0x7B then Some LBrace else if c = 0x7D then Some RBrace
      else if c = 0x5B then Some LBracket else if c = 0x5D then Some RBracket
      else if c = 0x3A then Some Colon else if c = 0x2C then Some Comma
      else None)"

text \<open>
  One token from the front of an input that does not start with white space, and the
  input after it.
\<close>

definition next_token :: "jsstring \<Rightarrow> (token \<times> jsstring) option" where
  "next_token s =
     (case s of
        [] \<Rightarrow> None
      | c # cs \<Rightarrow>
          (case punctuation c of
             Some t \<Rightarrow> Some (t, cs)
           | None \<Rightarrow>
               if c = 0x22 then map_option (\<lambda>(x, r). (StringToken x, r)) (lex_string [] cs)
               else if take 4 s = js ''true'' then Some (TrueToken, drop 4 s)
               else if take 5 s = js ''false'' then Some (FalseToken, drop 5 s)
               else if take 4 s = js ''null'' then Some (NullToken, drop 4 s)
               else map_option (\<lambda>(x, r). (NumberToken x, r)) (lex_number s)))"

text \<open>The tokens of a text; \<open>None\<close> when some part of it is not a token.\<close>

function tokenize :: "jsstring \<Rightarrow> token list option" where
  "tokenize s =
     (case dropWhile is_json_space s of
        [] \<Rightarrow> Some []
      | c # cs \<Rightarrow>
          (case next_token (c # cs) of
             None \<Rightarrow> None
           | Some (t, r) \<Rightarrow> map_option ((#) t) (tokenize r)))"
  by pat_completeness auto
termination
proof (relation "measure length")
  show "wf (measure length)" by simp
next
  fix s :: jsstring and c cs x t r
  assume dw: "dropWhile is_json_space s = c # cs"
    and nt: "next_token (c # cs) = Some x" and x: "(t, r) = x"
  have str: "length r' \<le> length i" if "lex_string acc i = Some (o', r')" for acc i o' r'
    using that
  proof (induction acc i rule: lex_string.induct)
    case (1 acc)
    then show ?case by simp
  next
    case (2 acc c cs)
    show ?case
    proof (cases "c = 0x22")
      case True
      with "2.prems" show ?thesis by simp
    next
      case q: False
      show ?thesis
      proof (cases "c = 0x5C")
        case False
        with q "2.prems" "2.IH"(3) show ?thesis
          by (auto split: if_splits intro: le_SucI)
      next
        case bs: True
        show ?thesis
        proof (cases cs)
          case Nil
          with q bs "2.prems" show ?thesis by simp
        next
          case (Cons e cs')
          show ?thesis
          proof (cases "e = 0x75")
            case False
            with q bs Cons "2.prems" obtain u where
              "unescape e = Some u" "lex_string (u # acc) cs' = Some (o', r')"
              by (auto split: option.splits)
            with "2.IH"(2) [OF q bs Cons False] Cons show ?thesis by fastforce
          next
            case True
            with q bs Cons "2.prems" obtain h1 h2 h3 h4 cs'' u where
              "cs' = h1 # h2 # h3 # h4 # cs''" "hex4 h1 h2 h3 h4 = Some u"
              "lex_string (u # acc) cs'' = Some (o', r')"
              by (auto split: option.splits list.splits)
            with "2.IH"(1) [OF q bs Cons True] Cons show ?thesis by fastforce
          qed
        qed
      qed
    qed
  qed
  have dig: "length (dropWhile is_digit i) \<le> length i" for i
    by (simp add: length_dropWhile_le)
  have int: "length r' < length i" if "lex_int i = Some (o', r')" for i o' r'
    using that
    by (cases i)
       (auto simp: lex_int_def Let_def less_Suc_eq_le length_dropWhile_le split: if_splits)
  have frac: "length r' \<le> length i" if "lex_frac i = Some (o', r')" for i o' r'
    using that dig
    by (auto simp: lex_frac_def Let_def le_SucI split: if_splits list.splits)
  have d1: "length r' \<le> length i" if "lex_digits1 p i = Some (o', r')" for p i o' r'
    using that dig by (auto simp: lex_digits1_def Let_def split: if_splits)
  have exp: "length r' \<le> length i" if "lex_exp i = Some (o', r')" for i o' r'
    using that d1
    by (fastforce simp: lex_exp_def le_SucI split: if_splits list.splits)
  have num: "length r' < length i" if "lex_number i = Some (o', r')" for i o' r'
  proof -
    define r0 where "r0 = (case i of c # cs \<Rightarrow> if c = 0x2D then cs else i | [] \<Rightarrow> i)"
    have r0: "length r0 \<le> length i"
      by (auto simp: r0_def split: list.splits)
    from that obtain a r1 b r2 c' where
      "lex_int r0 = Some (a, r1)" "lex_frac r1 = Some (b, r2)" "lex_exp r2 = Some (c', r')"
      by (auto simp: lex_number_def r0_def
               split: list.splits if_splits option.splits prod.splits)
    with int [of r0 a r1] frac [of r1 b r2] exp [of r2 c' r'] r0 show ?thesis by simp
  qed
  have "length r < length (c # cs)"
    using nt x
    by (auto simp: next_token_def split: option.splits if_splits dest!: str num)
  moreover have "length (c # cs) \<le> length s"
    using dw by (metis length_dropWhile_le)
  ultimately show "(r, s) \<in> measure length" by simp
qed

text \<open>
  \<open>obj[k] = v\<close> on the property list of an object: a property that exists keeps its
  place and takes the new value (a duplicate name in a JSON text overwrites), a new one
  goes to the end.
\<close>

fun set_property :: "jsstring \<Rightarrow> json \<Rightarrow> (jsstring \<times> json) list \<Rightarrow> (jsstring \<times> json) list" where
  "set_property k v [] = [(k, v)]"
| "set_property k v ((k', v') # ps) =
     (if k = k' then (k, v) # ps else (k', v') # set_property k v ps)"

text \<open>
  The parser is a pushdown automaton over the tokens. A frame is an array or an object
  under construction: the elements read so far, or the properties read so far and the
  name whose value is being read.
\<close>

datatype frame =
    InArray "json list"
  | InObject "(jsstring \<times> json) list" jsstring

datatype parser_state =
    ExpectValue "frame list"
  | ArrayStart "frame list"
  | ObjectStart "frame list"
  | ExpectName "(jsstring \<times> json) list" "frame list"
  | ExpectColon "(jsstring \<times> json) list" jsstring "frame list"
  | AfterValue json "frame list"

text \<open>A token where a value must start.\<close>

fun begin_value :: "frame list \<Rightarrow> token \<Rightarrow> parser_state option" where
  "begin_value fs NullToken = Some (AfterValue JNull fs)"
| "begin_value fs TrueToken = Some (AfterValue (JBool True) fs)"
| "begin_value fs FalseToken = Some (AfterValue (JBool False) fs)"
| "begin_value fs (NumberToken n) = Some (AfterValue (JNumber n) fs)"
| "begin_value fs (StringToken x) = Some (AfterValue (JString x) fs)"
| "begin_value fs LBracket = Some (ArrayStart fs)"
| "begin_value fs LBrace = Some (ObjectStart fs)"
| "begin_value fs t = None"

fun parser_step :: "parser_state \<Rightarrow> token \<Rightarrow> parser_state option" where
  "parser_step (ExpectValue fs) t = begin_value fs t"
| "parser_step (ArrayStart fs) RBracket = Some (AfterValue (JArray []) fs)"
| "parser_step (ArrayStart fs) t = begin_value (InArray [] # fs) t"
| "parser_step (ObjectStart fs) RBrace = Some (AfterValue (JObject []) fs)"
| "parser_step (ObjectStart fs) (StringToken k) = Some (ExpectColon [] k fs)"
| "parser_step (ObjectStart fs) t = None"
| "parser_step (ExpectName ps fs) (StringToken k) = Some (ExpectColon ps k fs)"
| "parser_step (ExpectName ps fs) t = None"
| "parser_step (ExpectColon ps k fs) Colon = Some (ExpectValue (InObject ps k # fs))"
| "parser_step (ExpectColon ps k fs) t = None"
| "parser_step (AfterValue v []) t = None"
| "parser_step (AfterValue v (InArray vs # fs)) Comma =
     Some (ExpectValue (InArray (vs @ [v]) # fs))"
| "parser_step (AfterValue v (InArray vs # fs)) RBracket =
     Some (AfterValue (JArray (vs @ [v])) fs)"
| "parser_step (AfterValue v (InArray vs # fs)) t = None"
| "parser_step (AfterValue v (InObject ps k # fs)) Comma =
     Some (ExpectName (set_property k v ps) fs)"
| "parser_step (AfterValue v (InObject ps k # fs)) RBrace =
     Some (AfterValue (JObject (set_property k v ps)) fs)"
| "parser_step (AfterValue v (InObject ps k # fs)) t = None"

fun parser_run :: "parser_state \<Rightarrow> token list \<Rightarrow> parser_state option" where
  "parser_run st [] = Some st"
| "parser_run st (t # ts) =
     (case parser_step st t of None \<Rightarrow> None | Some st' \<Rightarrow> parser_run st' ts)"

text \<open>The value of a JSON text, or \<open>None\<close> where \<open>JSON.parse\<close> throws a SyntaxError.\<close>

definition parse_json :: "jsstring \<Rightarrow> json option" where
  "parse_json s =
     (case tokenize s of
        None \<Rightarrow> None
      | Some ts \<Rightarrow>
          (case parser_run (ExpectValue []) ts of
             Some (AfterValue v []) \<Rightarrow> Some v
           | _ \<Rightarrow> None))"

section \<open>The request to the provider\<close>

text \<open>
  The \<open>Type\<close> enumeration of the provider's SDK, and a schema value: the object literal
  \<open>{ type, description, properties, items }\<close>, where each of \<open>description\<close>,
  \<open>properties\<close> and \<open>items\<close> may be absent. The arguments of \<open>Schema\<close> are in this
  order.
\<close>

datatype schema_type = STRING | NUMBER | INTEGER | BOOLEAN | ARRAY | OBJECT

datatype schema =
  Schema schema_type "jsstring option" "(jsstring \<times> schema) list option" "schema option"

text \<open>A part of the request: \<open>{ text }\<close> or \<open>{ inlineData: { mimeType, data } }\<close>.\<close>

datatype part = TextPart jsstring | InlineDataPart inlineData

record contents =
  parts :: "part list"

record config =
  responseMimeType :: jsstring
  configResponseSchema :: schema

record request =
  model :: jsstring
  contents :: contents
  config :: config

text \<open>\<open>response.text\<close> is a string, or \<open>undefined\<close> when the response carries no text.\<close>

record response =
  responseText :: "jsstring option"

text \<open>The instruction, lines 55 to 69: a template literal over the three strings.\<close>

definition prompt :: "jsstring \<Rightarrow> jsstring \<Rightarrow> jsstring \<Rightarrow> jsstring" where
  "prompt fighterName opponentName weightClass =
     js ''\<newline>'' @
     js ''    You are an expert MMA analyst and coach. Analyze the two fighters based on the provided videos.\<newline>'' @
     js ''\<newline>'' @
     js ''    Fighter 1: '' @
     fighterName @
     js ''\<newline>'' @
     js ''    Fighter 2: '' @
     opponentName @
     js ''\<newline>'' @
     js ''    Weight Class: '' @
     weightClass @
     js ''\<newline>'' @
     js ''\<newline>'' @
     js ''    Please provide a detailed analysis covering:\<newline>'' @
     js ''    1. For '' @
     fighterName @
     js '': A list of strengths, a list of weaknesses, a list of fighting patterns and habits with excruciating details and a description of their fighting style.\<newline>'' @
     js ''    2. For '' @
     opponentName @
     js '': A list of strengths, a list of weaknesses, a list of fighting patterns and habits with excruciating details and a description of their fighting style.\<newline>'' @
     js ''    3. A head-to-head prediction with a confidence score (from 0 to 100).\<newline>'' @
     js ''    4. A recommended game plan for '' @
     fighterName @
     js '' to defeat '' @
     opponentName @
     js '', including an overall strategy, a list of key tactics, and a list of specific drills to practice.\<newline>'' @
     js ''\<newline>'' @
     js ''    Return the analysis in a structured JSON format according to the provided schema.\<newline>'' @
     js ''    ''"

text \<open>The schema declaration, lines 71 to 114.\<close>

definition responseSchema :: "jsstring \<Rightarrow> jsstring \<Rightarrow> schema" where
  "responseSchema fighterName opponentName =
     Schema OBJECT None
       (Some
         [(js ''fighterAnalysis'',
          Schema OBJECT (Some (js ''Analysis for '' @ fighterName @ js ''.''))
            (Some
              [(js ''strengths'', Schema ARRAY (Some (js ''List of strengths.'')) None (Some (Schema STRING None None None))),
               (js ''fightingPattern'', Schema ARRAY (Some (js ''List of fighting patterns.'')) None (Some (Schema STRING None None None))),
               (js ''fightingHabits'', Schema ARRAY (Some (js ''List of fighting habits.'')) None (Some (Schema STRING None None None))),
               (js ''weaknesses'', Schema ARRAY (Some (js ''List of weaknesses.'')) None (Some (Schema STRING None None None))),
               (js ''fightingStyle'', Schema STRING (Some (js ''Description of fighting style.'')) None None)])
            None),
          (js ''opponentAnalysis'',
          Schema OBJECT (Some (js ''Analysis for '' @ opponentName @ js ''.''))
            (Some
              [(js ''strengths'', Schema ARRAY (Some (js ''List of strengths.'')) None (Some (Schema STRING None None None))),
               (js ''fightingPattern'', Schema ARRAY (Some (js ''List of fighting patterns.'')) None (Some (Schema STRING None None None))),
               (js ''fightingHabits'', Schema ARRAY (Some (js ''List of fighting habits.'')) None (Some (Schema STRING None None None))),
               (js ''weaknesses'', Schema ARRAY (Some (js ''List of weaknesses.'')) None (Some (Schema STRING None None None))),
               (js ''fightingStyle'', Schema STRING (Some (js ''Description of fighting style.'')) None None)])
            None),
          (js ''headToHead'',
          Schema OBJECT (Some (js ''Head-to-head comparison and prediction.''))
            (Some
              [(js ''prediction'', Schema STRING (Some (js ''Prediction for the fight outcome.'')) None None),
               (js ''confidence'', Schema NUMBER (Some (js ''Confidence score in the prediction, from 0 to 100.'')) None None)])
            None),
          (js ''recommendedGamePlan'',
          Schema OBJECT (Some (js ''Recommended game plan for '' @ fighterName @ js ''.''))
            (Some
              [(js ''strategy'', Schema STRING (Some (js ''Overall strategy for the fighter.'')) None None),
               (js ''keyTactics'', Schema ARRAY (Some (js ''Specific tactics to employ.'')) None (Some (Schema STRING None None None))),
               (js ''drills'', Schema ARRAY (Some (js ''Drills to practice for preparation.'')) None (Some (Schema STRING None None None)))])
            None)])
       None"

section \<open>The environment and \<open>analyzeFights\<close>\<close>

text \<open>
  What the service does not decide: how the \<open>n\<close>-th file reader it creates fares on a
  file, what the provider answers to a request (a response, a rejection, or nothing at
  all), and the wording of the messages of the errors the JavaScript engine throws.
\<close>

record world =
  readAsDataURL :: "nat \<Rightarrow> File \<Rightarrow> read_outcome"
  generateContent :: "request \<Rightarrow> (response, thrown) promise"
  syntaxErrorMessage :: "jsstring \<Rightarrow> jsstring"
  typeErrorMessage :: jsstring

text \<open>\<open>JSON.parse(s)\<close>: the value, or the SyntaxError thrown.\<close>

definition JSON_parse :: "world \<Rightarrow> jsstring \<Rightarrow> thrown + json" where
  "JSON_parse w s =
     (case parse_json s of
        None \<Rightarrow> Inl (ErrorObject (js ''SyntaxError'') (syntaxErrorMessage w s))
      | Some v \<Rightarrow> Inr v)"

text \<open>What a call leaves behind: the requests sent to the provider and the console output.\<close>

datatype console_arg = LogString jsstring | LogThrown thrown

datatype effect = GenerateContentCall request | ConsoleError "console_arg list"

text \<open>The argument of \<open>ai.models.generateContent\<close>, lines 117 to 132.\<close>

definition generateContentParameters ::
  "jsstring \<Rightarrow> jsstring \<Rightarrow> jsstring \<Rightarrow> inlineData \<Rightarrow> inlineData \<Rightarrow> request" where
  "generateContentParameters fighterName opponentName weightClass
       fighterVideoPart opponentVideoPart =
     \<lparr>model = js ''gemini-2.5-flash'',
      contents = \<lparr>parts =
        [TextPart (prompt fighterName opponentName weightClass),
         TextPart (js ''\<newline>\<newline>Fighter Video ('' @ fighterName @ js ''):''),
         InlineDataPart fighterVideoPart,
         TextPart (js ''\<newline>\<newline>Opponent Video ('' @ opponentName @ js ''):''),
         InlineDataPart opponentVideoPart]\<rparr>,
      config =
        \<lparr>responseMimeType = js ''application/json'',
         configResponseSchema = responseSchema fighterName opponentName\<rparr>\<rparr>"

text \<open>The message of the error thrown when the response does not parse, line 141.\<close>

definition format_error_message :: jsstring where
  "format_error_message =
     js ''The analysis result from the AI was not in the expected format. Please try again.''"

text \<open>
  \<open>analyzeFights\<close>, lines 42 to 143: the state of the promise it returns and the effects
  of the call, in order. Each \<open>await\<close> is a case distinction on the promise awaited: a
  rejection is thrown on, and the call stays pending on a promise that never settles. The
  second file is read only after the first payload is there. \<open>response.text.trim()\<close> on
  an undefined text throws a TypeError, outside the \<open>try\<close> block. The client object is
  constructed from the ambient API key before all this; the construction is taken to
  succeed.
\<close>

definition analyzeFights ::
  "world \<Rightarrow> jsstring \<Rightarrow> jsstring \<Rightarrow> jsstring \<Rightarrow> File \<Rightarrow> File
     \<Rightarrow> (json, thrown) promise \<times> effect list" where
  "analyzeFights w fighterName opponentName weightClass fighterVideo opponentVideo =
     (case fileToGenerativePart (readAsDataURL w 0 fighterVideo) fighterVideo of
        Pending \<Rightarrow> (Pending, [])
      | Rejected e \<Rightarrow> (Rejected e, [])
      | Fulfilled fighterVideoPart \<Rightarrow>
     (case fileToGenerativePart (readAsDataURL w 1 opponentVideo) opponentVideo of
        Pending \<Rightarrow> (Pending, [])
      | Rejected e \<Rightarrow> (Rejected e, [])
      | Fulfilled opponentVideoPart \<Rightarrow>
     (let req = generateContentParameters fighterName opponentName weightClass
                  fighterVideoPart opponentVideoPart
      in case generateContent w req of
           Pending \<Rightarrow> (Pending, [GenerateContentCall req])
         | Rejected e \<Rightarrow> (Rejected e, [GenerateContentCall req])
         | Fulfilled response \<Rightarrow>
     (case responseText response of
        None \<Rightarrow>
          (Rejected (ErrorObject (js ''TypeError'') (typeErrorMessage w)),
           [GenerateContentCall req])
      | Some text \<Rightarrow>
     (let jsonString = trim text
      in case JSON_parse w jsonString of
           Inr parsedResult \<Rightarrow> (Fulfilled parsedResult, [GenerateContentCall req])
         | Inl e \<Rightarrow>
             (Rejected (ErrorObject (js ''Error'') format_error_message),
              [GenerateContentCall req,
               ConsoleError [LogString (js ''Failed to parse JSON response from Gemini:''),
                             LogString jsonString, LogThrown e]]))))))"

section \<open>The platform's side of the encoder: data URLs and base64\<close>

text \<open>
  Base64 as in RFC 4648: three bytes become four characters of the alphabet, and a last
  group of one or two bytes is padded with \<open>=\<close>. \<open>base64_char x\<close> is the character
  for the low six bits of \<open>x\<close>.
\<close>

definition base64_alphabet :: jsstring where
  "base64_alphabet = js ''ABCDEFGHIJKLMNOPQRSTUVWXYZabcdefghijklmnopqrstuvwxyz0123456789+/''"

definition pad :: code_unit where
  "pad = 0x3D"

definition base64_char :: "byte \<Rightarrow> code_unit" where
  "base64_char x = base64_alphabet ! unat (x AND 63)"

fun index_of :: "'a \<Rightarrow> 'a list \<Rightarrow> nat option" where
  "index_of x [] = None"
| "index_of x (y # ys) = (if x = y then Some 0 else map_option Suc (index_of x ys))"

definition base64_value :: "code_unit \<Rightarrow> byte option" where
  "base64_value c = map_option of_nat (index_of c base64_alphabet)"

fun base64_encode :: "byte list \<Rightarrow> jsstring" where
  "base64_encode [] = []"
| "base64_encode [a] =
     [base64_char (drop_bit 2 a), base64_char (push_bit 4 (a AND 3)), pad, pad]"
| "base64_encode [a, b] =
     [base64_char (drop_bit 2 a),
      base64_char (push_bit 4 (a AND 3) OR drop_bit 4 b),
      base64_char (push_bit 2 (b AND 15)), pad]"
| "base64_encode (a # b # c # bs) =
     [base64_char (drop_bit 2 a),
      base64_char (push_bit 4 (a AND 3) OR drop_bit 4 b),
      base64_char (push_bit 2 (b AND 15) OR drop_bit 6 c),
      base64_char c] @ base64_encode bs"

text \<open>
  Decoding: the length is a multiple of four, every character is of the alphabet, and
  padding stands at the end of the last group only; anything else is not base64.
\<close>

fun base64_decode :: "jsstring \<Rightarrow> byte list option" where
  "base64_decode [] = Some []"
| "base64_decode (c1 # c2 # c3 # c4 # cs) =
     (case (base64_value c1, base64_value c2) of
        (Some s1, Some s2) \<Rightarrow>
          (if cs = [] \<and> c3 = pad \<and> c4 = pad then
             Some [push_bit 2 s1 OR drop_bit 4 s2]
           else
             (case base64_value c3 of
                None \<Rightarrow> None
              | Some s3 \<Rightarrow>
                  (if cs = [] \<and> c4 = pad then
                     Some [push_bit 2 s1 OR drop_bit 4 s2, push_bit 4 s2 OR drop_bit 2 s3]
                   else
                     (case base64_value c4 of
                        None \<Rightarrow> None
                      | Some s4 \<Rightarrow>
                          map_option
                            ((@) [push_bit 2 s1 OR drop_bit 4 s2,
                                  push_bit 4 s2 OR drop_bit 2 s3,
                                  push_bit 6 s3 OR s4])
                            (base64_decode cs)))))
      | _ \<Rightarrow> None)"
| "base64_decode cs = None"

text \<open>
  The result of \<open>readAsDataURL\<close> on a file that can be read (File API, RFC 2397): the
  file's type and the base64 encoding of its bytes, as
  \<open>data:<type>;base64,<data>\<close>. (Browsers write \<open>application/octet-stream\<close> for an
  empty type; the encoder drops the prefix either way.) \<open>fileapi_reader\<close> is a reader
  that follows the File API on files it can read.
\<close>

definition dataURL :: "File \<Rightarrow> jsstring" where
  "dataURL file = js ''data:'' @ type file @ js '';base64,'' @ base64_encode (bytes file)"

definition fileapi_reader :: "nat \<Rightarrow> File \<Rightarrow> read_outcome" where
  "fileapi_reader n file = Loaded (ResultString (dataURL file))"

text \<open>
  The specification's media payload pairs a MIME type with a base64-encoded
  representation of bytes. A payload is well formed when its data is such a text: a
  string, and one that base64 decoding accepts. (Its \<open>mimeType\<close> is a string in any
  case.)
\<close>

definition well_formed_payload :: "inlineData \<Rightarrow> bool" where
  "well_formed_payload p \<longleftrightarrow>
     (case data p of None \<Rightarrow> False | Some d \<Rightarrow> base64_decode d \<noteq> None)"

section \<open>The shape of an analysis result\<close>

text \<open>
  The structure a schema declares, without its descriptions: a leaf of some type, an
  array of items, or an object with named properties.
\<close>

datatype shape =
    Leaf schema_type
  | ArrayOf shape
  | ObjectOf "(jsstring \<times> shape) list"

fun shape_of :: "schema \<Rightarrow> shape" where
  "shape_of (Schema OBJECT d (Some ps) i) = ObjectOf (map (\<lambda>(k, s). (k, shape_of s)) ps)"
| "shape_of (Schema ARRAY d ps (Some i)) = ArrayOf (shape_of i)"
| "shape_of (Schema t d ps i) = Leaf t"

text \<open>
  Two shapes are the same when they differ in the order of the properties of their
  objects at most; property names are not repeated.
\<close>

fun same_shape :: "shape \<Rightarrow> shape \<Rightarrow> bool" where
  "same_shape (Leaf t) (Leaf u) = (t = u)"
| "same_shape (ArrayOf a) (ArrayOf b) = same_shape a b"
| "same_shape (ObjectOf ps) (ObjectOf qs) =
     (distinct (map fst ps) \<and> distinct (map fst qs) \<and> length ps = length qs \<and>
      (\<forall>(k, a) \<in> set ps. case map_of qs k of None \<Rightarrow> False | Some b \<Rightarrow> same_shape a b))"
| "same_shape a b = False"

text \<open>
  Modelled from the spec: the \<open>FighterProfile\<close> part of the \<open>AnalysisResult\<close> type of
  \<open>types.ts\<close>, which is not among the sources. Section 3 of the specification, in its
  words and its order: fightingStyle is a string; strengths, weaknesses, fightingHabits
  and fightingPattern are arrays of strings.
\<close>

definition FighterProfile :: shape where
  "FighterProfile =
     ObjectOf
       [(js ''fightingStyle'', Leaf STRING),
        (js ''strengths'', ArrayOf (Leaf STRING)),
        (js ''weaknesses'', ArrayOf (Leaf STRING)),
        (js ''fightingHabits'', ArrayOf (Leaf STRING)),
        (js ''fightingPattern'', ArrayOf (Leaf STRING))]"

text \<open>
  Modelled from the spec: the head-to-head of section 3 (\<open>types.ts\<close> is not among the
  sources): prediction is a string, confidence a number.
\<close>

definition HeadToHead :: shape where
  "HeadToHead =
     ObjectOf [(js ''prediction'', Leaf STRING), (js ''confidence'', Leaf NUMBER)]"

text \<open>
  Modelled from the spec: the game plan of section 3 (\<open>types.ts\<close> is not among the
  sources): strategy is a string, keyTactics and drills are arrays of strings.
\<close>

definition GamePlan :: shape where
  "GamePlan =
     ObjectOf
       [(js ''strategy'', Leaf STRING),
        (js ''keyTactics'', ArrayOf (Leaf STRING)),
        (js ''drills'', ArrayOf (Leaf STRING))]"

text \<open>
  Modelled from the spec: the \<open>AnalysisResult\<close> type of \<open>types.ts\<close>, which is not among
  the sources. By section 3 it is the aggregate of the four substructures: two fighter
  profiles, a head-to-head and a game plan. The four names are those under which
  \<open>components/ResultsSection.tsx\<close> reads them.
\<close>

definition AnalysisResult :: shape where
  "AnalysisResult =
     ObjectOf
       [(js ''fighterAnalysis'', FighterProfile),
        (js ''opponentAnalysis'', FighterProfile),
        (js ''headToHead'', HeadToHead),
        (js ''recommendedGamePlan'', GamePlan)]"

text \<open>
  A value has a shape when it is of the leaf's type, an array of values of the item's
  shape, or an object that has every property of the shape, with a value of its shape
  (as for a TypeScript interface, further properties do no harm). An \<open>INTEGER\<close> is a
  number whose token has no fraction and no exponent.
\<close>

fun has_shape :: "shape \<Rightarrow> json \<Rightarrow> bool" where
  "has_shape (Leaf STRING) v = (case v of JString x \<Rightarrow> True | _ \<Rightarrow> False)"
| "has_shape (Leaf NUMBER) v = (case v of JNumber n \<Rightarrow> True | _ \<Rightarrow> False)"
| "has_shape (Leaf INTEGER) v =
     (case v of JNumber n \<Rightarrow> list_all (\<lambda>c. is_digit c \<or> c = 0x2D) n | _ \<Rightarrow> False)"
| "has_shape (Leaf BOOLEAN) v = (case v of JBool b \<Rightarrow> True | _ \<Rightarrow> False)"
| "has_shape (Leaf ARRAY) v = (case v of JArray vs \<Rightarrow> True | _ \<Rightarrow> False)"
| "has_shape (Leaf OBJECT) v = (case v of JObject ps \<Rightarrow> True | _ \<Rightarrow> False)"
| "has_shape (ArrayOf a) v =
     (case v of JArray vs \<Rightarrow> list_all (has_shape a) vs | _ \<Rightarrow> False)"
| "has_shape (ObjectOf fs) v =
     (case v of
        JObject ps \<Rightarrow>
          list_all (\<lambda>(k, a). case map_of ps k of None \<Rightarrow> False | Some x \<Rightarrow> has_shape a x)
            fs
      | _ \<Rightarrow> False)"

section \<open>Example inputs\<close>

definition jones_video :: File where
  "jones_video = \<lparr>name = js ''jones.mp4'', type = js ''video/mp4'', bytes = [0, 0, 1, 186]\<rparr>"

definition smith_video :: File where
  "smith_video = \<lparr>name = js ''smith.mp4'', type = js ''video/mp4'', bytes = [26, 69, 223]\<rparr>"

text \<open>A recording whose type names two codecs, as the browser's media recorder types it.\<close>

definition recorded_video :: File where
  "recorded_video =
     \<lparr>name = js ''sparring.webm'', type = js ''video/webm;codecs=vp8,opus'', bytes = [26, 69, 223]\<rparr>"

text \<open>
  A world whose readers follow the File API and whose provider answers every request
  with the given promise.
\<close>

definition answering :: "(response, thrown) promise \<Rightarrow> world" where
  "answering p =
     \<lparr>readAsDataURL = fileapi_reader,
      generateContent = (\<lambda>req. p),
      syntaxErrorMessage = (\<lambda>s. js ''Unexpected token or end of JSON input''),
      typeErrorMessage = js ''Cannot read properties of undefined''\<rparr>"

text \<open>A world in which the reader of the first file succeeds and that of the second fails.\<close>

definition second_read_fails :: world where
  "second_read_fails =
     \<lparr>readAsDataURL =
        (\<lambda>n. if n = 0 then fileapi_reader n
             else (\<lambda>file. Failed (ProgressEvent (js ''NotReadableError'')))),
      generateContent = (\<lambda>req. Pending),
      syntaxErrorMessage = (\<lambda>s. js ''Unexpected token or end of JSON input''),
      typeErrorMessage = js ''Cannot read properties of undefined''\<rparr>"

text \<open>
  Three answers of a provider: an analysis with all its fields, the same without
  \<open>headToHead.confidence\<close>, and a text cut off in the middle.
\<close>

definition full_answer :: jsstring where
  "full_answer =
     js ''{\"fighterAnalysis\":{\"strengths\":[\"jab\"],\"fightingPattern\":[],\"fightingHabits\":[],'' @
     js ''\"weaknesses\":[],\"fightingStyle\":\"boxer\"},'' @
     js ''\"opponentAnalysis\":{\"strengths\":[],\"fightingPattern\":[],\"fightingHabits\":[],'' @
     js ''\"weaknesses\":[\"cardio\"],\"fightingStyle\":\"wrestler\"},'' @
     js ''\"headToHead\":{\"prediction\":\"Jones by decision\",\"confidence\":70},'' @
     js ''\"recommendedGamePlan\":{\"strategy\":\"stay outside\",\"keyTactics\":[],\"drills\":[]}}\<newline>''"

definition partial_answer :: jsstring where
  "partial_answer =
     js ''{\"fighterAnalysis\":{\"strengths\":[\"jab\"],\"fightingPattern\":[],\"fightingHabits\":[],'' @
     js ''\"weaknesses\":[],\"fightingStyle\":\"boxer\"},'' @
     js ''\"opponentAnalysis\":{\"strengths\":[],\"fightingPattern\":[],\"fightingHabits\":[],'' @
     js ''\"weaknesses\":[\"cardio\"],\"fightingStyle\":\"wrestler\"},'' @
     js ''\"headToHead\":{\"prediction\":\"Jones by decision\"},'' @
     js ''\"recommendedGamePlan\":{\"strategy\":\"stay outside\",\"keyTactics\":[],\"drills\":[]}}\<newline>''"

definition truncated_answer :: jsstring where
  "truncated_answer = js ''{\"fighterAnalysis\":{\"strengths\":[\"jab\"''"

text \<open>The values of the first two answers, and an error of the provider.\<close>

definition full_analysis :: json where
  "full_analysis =
     JObject
       [(js ''fighterAnalysis'',
         JObject
           [(js ''strengths'', JArray [JString (js ''jab'')]),
            (js ''fightingPattern'', JArray []),
            (js ''fightingHabits'', JArray []),
            (js ''weaknesses'', JArray []),
            (js ''fightingStyle'', JString (js ''boxer''))]),
        (js ''opponentAnalysis'',
         JObject
           [(js ''strengths'', JArray []),
            (js ''fightingPattern'', JArray []),
            (js ''fightingHabits'', JArray []),
            (js ''weaknesses'', JArray [JString (js ''cardio'')]),
            (js ''fightingStyle'', JString (js ''wrestler''))]),
        (js ''headToHead'',
         JObject
           [(js ''prediction'', JString (js ''Jones by decision'')),
            (js ''confidence'', JNumber (js ''70''))]),
        (js ''recommendedGamePlan'',
         JObject
           [(js ''strategy'', JString (js ''stay outside'')),
            (js ''keyTactics'', JArray []),
            (js ''drills'', JArray [])])]"

definition partial_analysis :: json where
  "partial_analysis =
     JObject
       [(js ''fighterAnalysis'',
         JObject
           [(js ''strengths'', JArray [JString (js ''jab'')]),
            (js ''fightingPattern'', JArray []),
            (js ''fightingHabits'', JArray []),
            (js ''weaknesses'', JArray []),
            (js ''fightingStyle'', JString (js ''boxer''))]),
        (js ''opponentAnalysis'',
         JObject
           [(js ''strengths'', JArray []),
            (js ''fightingPattern'', JArray []),
            (js ''fightingHabits'', JArray []),
            (js ''weaknesses'', JArray [JString (js ''cardio'')]),
            (js ''fightingStyle'', JString (js ''wrestler''))]),
        (js ''headToHead'',
         JObject [(js ''prediction'', JString (js ''Jones by decision''))]),
        (js ''recommendedGamePlan'',
         JObject
           [(js ''strategy'', JString (js ''stay outside'')),
            (js ''keyTactics'', JArray []),
            (js ''drills'', JArray [])])]"

definition quota_error :: thrown where
  "quota_error = ErrorObject (js ''ApiError'') (js ''429 RESOURCE_EXHAUSTED'')"

section \<open>Facts about strings and the encoder\<close>

lemma split_not_Nil: "split s sep \<noteq> []"
  by (induction s) (auto split: list.splits)

lemma split_no_separator: "sep \<notin> set s \<Longrightarrow> split s sep = [s]"
  by (induction s) auto

lemma split_one_separator:
  "sep \<notin> set a \<Longrightarrow> sep \<notin> set b \<Longrightarrow> split (a @ sep # b) sep = [a, b]"
  by (induction a) (auto simp: split_no_separator)

lemma fileToGenerativePart_Failed:
  "fileToGenerativePart (Failed ev) file = Rejected (EventObject ev)"
  by (simp add: fileToGenerativePart_def onerror_def)

lemma fileToGenerativePart_string:
  "fileToGenerativePart (Loaded (ResultString s)) file =
     Fulfilled \<lparr>mimeType = type file, data = at_index (split s comma) 1\<rparr>"
  by (simp add: fileToGenerativePart_def)

lemma fileToGenerativePart_not_string:
  "\<forall>s. r \<noteq> ResultString s \<Longrightarrow>
   fileToGenerativePart (Loaded r) file =
     Rejected (ErrorObject (js ''Error'') (js ''Failed to read file as base64 string.''))"
  by (cases r) (simp_all add: fileToGenerativePart_def)

text \<open>The promise of the encoder is always settled: the reader always fires \<open>loadend\<close>.\<close>

lemma fileToGenerativePart_settles: "fileToGenerativePart outcome file \<noteq> Pending"
proof (cases outcome)
  case (Loaded r)
  then show ?thesis
    by (cases r) (simp_all add: fileToGenerativePart_def)
next
  case (Failed ev)
  then show ?thesis by (simp add: fileToGenerativePart_Failed)
qed

section \<open>Base64 decodes what it encodes\<close>

lemma index_of_nth: "distinct xs \<Longrightarrow> n < length xs \<Longrightarrow> index_of (xs ! n) xs = Some n"
proof (induction xs arbitrary: n)
  case Nil
  then show ?case by simp
next
  case (Cons x xs)
  then show ?case by (cases n) auto
qed

lemma alphabet_facts:
  "distinct base64_alphabet" "length base64_alphabet = 64" "pad \<notin> set base64_alphabet"
  "comma \<notin> set base64_alphabet"
  by (simp_all add: base64_alphabet_def js_def pad_def comma_def)

lemma low_six_bits_less: "unat (x AND 63 :: byte) < 64"
proof -
  have "x AND 63 \<le> 63"
    by (rule word_and_le1)
  then have "unat (x AND 63) \<le> 63"
    by (simp add: word_le_nat_alt)
  then show ?thesis by simp
qed

lemma base64_value_char: "base64_value (base64_char x) = Some (x AND 63)"
  by (simp add: base64_value_def base64_char_def index_of_nth alphabet_facts low_six_bits_less)

lemma base64_char_in: "base64_char x \<in> set base64_alphabet"
  by (simp add: base64_char_def alphabet_facts low_six_bits_less)

lemma base64_char_not_pad: "base64_char x \<noteq> pad"
  using base64_char_in alphabet_facts(3) by metis

lemma and_63: "(x :: byte) AND 63 = take_bit 6 x"
  by (simp add: take_bit_eq_mask mask_eq_exp_minus_1)

lemma and_3: "(x :: byte) AND 3 = take_bit 2 x"
  by (simp add: take_bit_eq_mask mask_eq_exp_minus_1)

lemma and_15: "(x :: byte) AND 15 = take_bit 4 x"
  by (simp add: take_bit_eq_mask mask_eq_exp_minus_1)

lemma less_8_cases: "n < (8::nat) \<longleftrightarrow> n \<in> {0, 1, 2, 3, 4, 5, 6, 7}"
  by auto

text \<open>The three bytes of a group, recovered from its four sextets, bit by bit.\<close>

lemma first_byte:
  "push_bit 2 (drop_bit 2 a AND 63) OR
   drop_bit 4 ((push_bit 4 (a AND 3) OR drop_bit 4 b) AND 63) = (a :: byte)"
  unfolding and_63 and_3 and_15
  by (rule bit_word_eqI)
     (auto simp: less_8_cases bit_simps dest: bit_imp_le_length,
      (simp_all add: numeral_2_eq_2 numeral_3_eq_3)?)

lemma second_byte:
  "push_bit 4 ((push_bit 4 (a AND 3) OR drop_bit 4 b) AND 63) OR
   drop_bit 2 ((push_bit 2 (b AND 15) OR drop_bit 6 c) AND 63) = (b :: byte)"
  unfolding and_63 and_3 and_15
  by (rule bit_word_eqI)
     (auto simp: less_8_cases bit_simps dest: bit_imp_le_length,
      (simp_all add: numeral_2_eq_2 numeral_3_eq_3)?)

lemma third_byte:
  "push_bit 6 ((push_bit 2 (b AND 15) OR drop_bit 6 c) AND 63) OR (c AND 63) = (c :: byte)"
  unfolding and_63 and_3 and_15
  by (rule bit_word_eqI)
     (auto simp: less_8_cases bit_simps dest: bit_imp_le_length,
      (simp_all add: numeral_2_eq_2 numeral_3_eq_3)?)

lemma only_byte:
  "push_bit 2 (drop_bit 2 a AND 63) OR drop_bit 4 (push_bit 4 (a AND 3) AND 63) = (a :: byte)"
  unfolding and_63 and_3 and_15
  by (rule bit_word_eqI)
     (auto simp: less_8_cases bit_simps dest: bit_imp_le_length,
      (simp_all add: numeral_2_eq_2 numeral_3_eq_3)?)

lemma last_byte_of_two:
  "push_bit 4 ((push_bit 4 (a AND 3) OR drop_bit 4 b) AND 63) OR
   drop_bit 2 (push_bit 2 (b AND 15) AND 63) = (b :: byte)"
  unfolding and_63 and_3 and_15
  by (rule bit_word_eqI)
     (auto simp: less_8_cases bit_simps dest: bit_imp_le_length,
      (simp_all add: numeral_2_eq_2 numeral_3_eq_3)?)

lemma decode_one_byte:
  "base64_value c1 = Some s1 \<Longrightarrow> base64_value c2 = Some s2 \<Longrightarrow>
   base64_decode [c1, c2, pad, pad] = Some [push_bit 2 s1 OR drop_bit 4 s2]"
  by simp

lemma decode_two_bytes:
  "base64_value c1 = Some s1 \<Longrightarrow> base64_value c2 = Some s2 \<Longrightarrow>
   base64_value c3 = Some s3 \<Longrightarrow> c3 \<noteq> pad \<Longrightarrow>
   base64_decode [c1, c2, c3, pad] =
     Some [push_bit 2 s1 OR drop_bit 4 s2, push_bit 4 s2 OR drop_bit 2 s3]"
  by simp

lemma decode_group:
  "base64_value c1 = Some s1 \<Longrightarrow> base64_value c2 = Some s2 \<Longrightarrow>
   base64_value c3 = Some s3 \<Longrightarrow> base64_value c4 = Some s4 \<Longrightarrow>
   c3 \<noteq> pad \<Longrightarrow> c4 \<noteq> pad \<Longrightarrow>
   base64_decode (c1 # c2 # c3 # c4 # cs) =
     map_option
       ((@) [push_bit 2 s1 OR drop_bit 4 s2, push_bit 4 s2 OR drop_bit 2 s3,
             push_bit 6 s3 OR s4])
       (base64_decode cs)"
  by simp

lemma base64_roundtrip: "base64_decode (base64_encode bs) = Some bs"
proof (induction bs rule: base64_encode.induct)
  case 1
  then show ?case by simp
next
  case (2 a)
  show ?case
    by (simp only: base64_encode.simps
          decode_one_byte [OF base64_value_char base64_value_char] only_byte)
next
  case (3 a b)
  show ?case
    by (simp only: base64_encode.simps
          decode_two_bytes [OF base64_value_char base64_value_char base64_value_char
                               base64_char_not_pad]
          first_byte last_byte_of_two)
next
  case (4 a b c bs)
  show ?case
    by (simp only: base64_encode.simps append.simps
          decode_group [OF base64_value_char base64_value_char base64_value_char
                           base64_value_char base64_char_not_pad base64_char_not_pad]
          first_byte second_byte third_byte 4 option.map)
qed

lemma base64_encode_chars: "set (base64_encode bs) \<subseteq> insert pad (set base64_alphabet)"
  by (induction bs rule: base64_encode.induct) (auto simp: base64_char_in)

lemma comma_not_in_base64: "comma \<notin> set (base64_encode bs)"
proof -
  have "comma \<notin> insert pad (set base64_alphabet)"
    using alphabet_facts(4) by (simp add: comma_def pad_def)
  with base64_encode_chars show ?thesis by blast
qed

text \<open>
  On a file whose type has no comma, read by a reader that follows the File API, the
  encoder's data is the base64 text of the bytes, and decodes to them.
\<close>

lemma split_dataURL:
  assumes "comma \<notin> set (type file)"
  shows "split (dataURL file) comma =
           [js ''data:'' @ type file @ js '';base64'', base64_encode (bytes file)]"
proof -
  have u: "dataURL file =
          (js ''data:'' @ type file @ js '';base64'') @ comma # base64_encode (bytes file)"
    by (simp add: dataURL_def js_def comma_def)
  have "comma \<notin> set (js ''data:'' @ type file @ js '';base64'')"
    using assms by (simp add: js_def comma_def)
  then show ?thesis
    unfolding u by (rule split_one_separator [OF _ comma_not_in_base64])
qed

lemma encoder_roundtrip:
  assumes "comma \<notin> set (type file)"
  shows "\<exists>d. fileToGenerativePart (fileapi_reader n file) file =
               Fulfilled \<lparr>mimeType = type file, data = Some d\<rparr> \<and>
             base64_decode d = Some (bytes file)"
  by (simp add: fileapi_reader_def fileToGenerativePart_string split_dataURL [OF assms]
        at_index_def base64_roundtrip)

text \<open>So on such a file the payload is well formed, and carries the file's type.\<close>

lemma encoder_payload_well_formed:
  assumes "comma \<notin> set (type file)"
  shows "\<exists>p. fileToGenerativePart (fileapi_reader n file) file = Fulfilled p \<and>
             well_formed_payload p \<and> mimeType p = type file"
  using encoder_roundtrip [OF assms, of n]
  by (auto simp: well_formed_payload_def)

text \<open>
  The encoder rejects exactly when the read errors or its result is not a string.
\<close>

lemma encoder_rejects_exactly:
  "(\<exists>e. fileToGenerativePart outcome file = Rejected e) \<longleftrightarrow>
     (\<exists>ev. outcome = Failed ev) \<or> (\<exists>r. outcome = Loaded r \<and> (\<forall>s. r \<noteq> ResultString s))"
proof (cases outcome)
  case (Failed ev)
  then show ?thesis by (simp add: fileToGenerativePart_Failed)
next
  case (Loaded r)
  then show ?thesis
    by (cases r) (simp_all add: fileToGenerativePart_string fileToGenerativePart_not_string)
qed

section \<open>Facts about \<open>analyzeFights\<close>\<close>

lemma analyzeFights_first_rejected:
  "fileToGenerativePart (readAsDataURL w 0 fighterVideo) fighterVideo = Rejected e \<Longrightarrow>
   analyzeFights w fighterName opponentName weightClass fighterVideo opponentVideo =
     (Rejected e, [])"
  by (simp add: analyzeFights_def)

lemma analyzeFights_second_rejected:
  "fileToGenerativePart (readAsDataURL w 0 fighterVideo) fighterVideo = Fulfilled p1 \<Longrightarrow>
   fileToGenerativePart (readAsDataURL w 1 opponentVideo) opponentVideo = Rejected e \<Longrightarrow>
   analyzeFights w fighterName opponentName weightClass fighterVideo opponentVideo =
     (Rejected e, [])"
  by (simp add: analyzeFights_def)

text \<open>Once both payloads are there, the call is decided by the provider's answer.\<close>

lemma analyzeFights_encoded:
  assumes "fileToGenerativePart (readAsDataURL w 0 fighterVideo) fighterVideo = Fulfilled p1"
    and "fileToGenerativePart (readAsDataURL w 1 opponentVideo) opponentVideo = Fulfilled p2"
  shows "analyzeFights w fighterName opponentName weightClass fighterVideo opponentVideo =
     (let req = generateContentParameters fighterName opponentName weightClass p1 p2
      in case generateContent w req of
           Pending \<Rightarrow> (Pending, [GenerateContentCall req])
         | Rejected e \<Rightarrow> (Rejected e, [GenerateContentCall req])
         | Fulfilled response \<Rightarrow>
             (case responseText response of
                None \<Rightarrow>
                  (Rejected (ErrorObject (js ''TypeError'') (typeErrorMessage w)),
                   [GenerateContentCall req])
              | Some text \<Rightarrow>
                  (case JSON_parse w (trim text) of
                     Inr parsedResult \<Rightarrow> (Fulfilled parsedResult, [GenerateContentCall req])
                   | Inl e \<Rightarrow>
                       (Rejected (ErrorObject (js ''Error'') format_error_message),
                        [GenerateContentCall req,
                         ConsoleError
                           [LogString (js ''Failed to parse JSON response from Gemini:''),
                            LogString (trim text), LogThrown e]]))))"
  using assms by (simp add: analyzeFights_def Let_def split: promise.split option.split)

text \<open>A request is sent only after both encodings, and it is the one built from them.\<close>

lemma analyzeFights_calls:
  assumes "GenerateContentCall req \<in>
             set (snd (analyzeFights w fighterName opponentName weightClass
                         fighterVideo opponentVideo))"
  shows "\<exists>p1 p2.
     fileToGenerativePart (readAsDataURL w 0 fighterVideo) fighterVideo = Fulfilled p1 \<and>
     fileToGenerativePart (readAsDataURL w 1 opponentVideo) opponentVideo = Fulfilled p2 \<and>
     req = generateContentParameters fighterName opponentName weightClass p1 p2"
  using assms
  by (auto simp: analyzeFights_def Let_def split: promise.splits option.splits sum.splits)

lemma sublist_later: "sublist xs zs \<Longrightarrow> sublist xs (ys @ zs)"
  by (simp add: sublist_append)

lemma sublist_prompt:
  "sublist fighterName (prompt fighterName opponentName weightClass)"
  "sublist opponentName (prompt fighterName opponentName weightClass)"
  "sublist weightClass (prompt fighterName opponentName weightClass)"
  unfolding prompt_def
  by (rule sublist_append_rightI sublist_later)+

lemma responseSchema_shape:
  "same_shape (shape_of (responseSchema fighterName opponentName)) AnalysisResult"
  by (simp add: responseSchema_def AnalysisResult_def FighterProfile_def HeadToHead_def
        GamePlan_def js_def)

section \<open>The examples, evaluated\<close>

lemma jones_part:
  "fileToGenerativePart (fileapi_reader n jones_video) jones_video =
     Fulfilled \<lparr>mimeType = js ''video/mp4'', data = Some (js ''AAABug=='')\<rparr>"
  by (simp add: fileapi_reader_def fileToGenerativePart_string dataURL_def jones_video_def
        js_def comma_def at_index_def base64_char_def base64_alphabet_def pad_def)

lemma smith_part:
  "fileToGenerativePart (fileapi_reader n smith_video) smith_video =
     Fulfilled \<lparr>mimeType = js ''video/mp4'', data = Some (js ''GkXf'')\<rparr>"
  by (simp add: fileapi_reader_def fileToGenerativePart_string dataURL_def smith_video_def
        js_def comma_def at_index_def base64_char_def base64_alphabet_def pad_def)

lemma answering_simps:
  "readAsDataURL (answering p) = fileapi_reader"
  "generateContent (answering p) req = p"
  "syntaxErrorMessage (answering p) s = js ''Unexpected token or end of JSON input''"
  by (simp_all add: answering_def)

lemma answering_parts:
  "fileToGenerativePart (readAsDataURL (answering p) n jones_video) jones_video =
     Fulfilled \<lparr>mimeType = js ''video/mp4'', data = Some (js ''AAABug=='')\<rparr>"
  "fileToGenerativePart (readAsDataURL (answering p) n smith_video) smith_video =
     Fulfilled \<lparr>mimeType = js ''video/mp4'', data = Some (js ''GkXf'')\<rparr>"
  by (simp_all add: answering_simps jones_part smith_part)

lemma parse_full: "parse_json (trim full_answer) = Some full_analysis"
  by code_simp

lemma parse_partial: "parse_json (trim partial_answer) = Some partial_analysis"
  by code_simp

lemma parse_truncated: "parse_json (trim truncated_answer) = None"
  by code_simp

lemma full_shape: "has_shape AnalysisResult full_analysis"
  by code_simp

lemma partial_shape: "\<not> has_shape AnalysisResult partial_analysis"
  by code_simp

lemma analyzeFights_answer:
  "parse_json (trim text) = Some v \<Longrightarrow>
   analyzeFights (answering (Fulfilled \<lparr>responseText = Some text\<rparr>))
       (js ''Jones'') (js ''Smith'') (js ''Heavyweight (265 lbs)'') jones_video smith_video =
     (Fulfilled v,
      [GenerateContentCall
         (generateContentParameters (js ''Jones'') (js ''Smith'') (js ''Heavyweight (265 lbs)'')
            \<lparr>mimeType = js ''video/mp4'', data = Some (js ''AAABug=='')\<rparr>
            \<lparr>mimeType = js ''video/mp4'', data = Some (js ''GkXf'')\<rparr>)])"
  by (simp add: analyzeFights_encoded [OF answering_parts] answering_simps JSON_parse_def)

lemma example_call:
  "GenerateContentCall
     (generateContentParameters (js ''Jones'') (js ''Smith'') (js ''Heavyweight (265 lbs)'')
        \<lparr>mimeType = js ''video/mp4'', data = Some (js ''AAABug=='')\<rparr>
        \<lparr>mimeType = js ''video/mp4'', data = Some (js ''GkXf'')\<rparr>)
   \<in> set (snd (analyzeFights (answering (Fulfilled \<lparr>responseText = Some full_answer\<rparr>))
         (js ''Jones'') (js ''Smith'') (js ''Heavyweight (265 lbs)'') jones_video smith_video))"
  by (simp add: analyzeFights_answer [OF parse_full])

text \<open>
  The end-to-end scenario of the specification: a provider that answers with a text of
  the full shape yields that analysis, which has the shape of an analysis result.
\<close>

lemma end_to_end:
  "fst (analyzeFights (answering (Fulfilled \<lparr>responseText = Some full_answer\<rparr>))
         (js ''Jones'') (js ''Smith'') (js ''Heavyweight (265 lbs)'') jones_video smith_video) =
     Fulfilled full_analysis \<and>
   has_shape AnalysisResult full_analysis"
  by (simp add: analyzeFights_answer [OF parse_full] full_shape)

section \<open>The claims\<close>

subsection \<open>C1: a response that parses is returned as it is\<close>

text \<open>
  Claim C1 says that a response whose text is valid JSON but lacks a required field of
  the analysis result makes \<open>analyzeFights\<close> fail with the format error. The code does
  not look at what it has parsed: \<open>parsedResult as AnalysisResult\<close> is a cast, and the
  \<open>catch\<close> is reached by a SyntaxError of \<open>JSON.parse\<close> only. Claim C1 as the code has
  it: whenever both videos are encoded and the provider answers with a text that, once
  trimmed, is valid JSON, \<open>analyzeFights\<close> fulfils with the parsed value unchanged,
  whatever fields that value has or lacks, and logs nothing.
\<close>

theorem parsed_value_returned_unchecked:
  assumes "fileToGenerativePart (readAsDataURL w 0 fighterVideo) fighterVideo = Fulfilled p1"
    and "fileToGenerativePart (readAsDataURL w 1 opponentVideo) opponentVideo = Fulfilled p2"
    and "generateContent w
           (generateContentParameters fighterName opponentName weightClass p1 p2) =
         Fulfilled resp"
    and "responseText resp = Some text"
    and "parse_json (trim text) = Some v"
  shows "analyzeFights w fighterName opponentName weightClass fighterVideo opponentVideo =
           (Fulfilled v,
            [GenerateContentCall
               (generateContentParameters fighterName opponentName weightClass p1 p2)])"
  using assms(3-5)
  by (simp add: analyzeFights_encoded [OF assms(1,2)] JSON_parse_def)

text \<open>The theorem at the answer that lacks \<open>headToHead.confidence\<close>.\<close>

theorem parsed_value_returned_unchecked_witness:
  "parse_json (trim partial_answer) = Some partial_analysis \<and>
   analyzeFights (answering (Fulfilled \<lparr>responseText = Some partial_answer\<rparr>))
       (js ''Jones'') (js ''Smith'') (js ''Heavyweight (265 lbs)'') jones_video smith_video =
     (Fulfilled partial_analysis,
      [GenerateContentCall
         (generateContentParameters (js ''Jones'') (js ''Smith'') (js ''Heavyweight (265 lbs)'')
            \<lparr>mimeType = js ''video/mp4'', data = Some (js ''AAABug=='')\<rparr>
            \<lparr>mimeType = js ''video/mp4'', data = Some (js ''GkXf'')\<rparr>)])"
  using parsed_value_returned_unchecked
          [OF answering_parts, of "Fulfilled \<lparr>responseText = Some partial_answer\<rparr>"
             "js ''Jones''" "js ''Smith''" "js ''Heavyweight (265 lbs)''"
             "\<lparr>responseText = Some partial_answer\<rparr>" partial_answer partial_analysis]
  by (simp add: answering_simps parse_partial)

text \<open>
  The claim as stated fails there: the caller receives an analysis without
  \<open>headToHead.confidence\<close>, which does not have the shape of an analysis result.
\<close>

theorem partial_result_returned:
  "fst (analyzeFights (answering (Fulfilled \<lparr>responseText = Some partial_answer\<rparr>))
         (js ''Jones'') (js ''Smith'') (js ''Heavyweight (265 lbs)'') jones_video smith_video) =
     Fulfilled partial_analysis \<and>
   \<not> has_shape AnalysisResult partial_analysis"
  by (simp add: analyzeFights_answer [OF parse_partial] partial_shape)

subsection \<open>C2: the round trip of the encoder\<close>

text \<open>
  Claim C2: the payload of the encoder has the file's declared type as its \<open>mimeType\<close>,
  and its \<open>data\<close>, decoded from base64, are the bytes of the file. The code takes
  \<open>reader.result.split(",")[1]\<close>, the text between the first comma of the data URL and
  the next one, to strip the prefix. The prefix holds the file's type, so on a file
  whose type contains a comma this text is a piece of the prefix and not the base64
  data (\<open>encoder_roundtrip\<close> above is the law on all other files). Here is the code on
  such a file: the data URL ends with the base64 text of the bytes, and the payload
  carries \<open>opus;base64\<close>, which is not base64 at all.
\<close>

theorem recorded_video_payload:
  "dataURL recorded_video = js ''data:video/webm;codecs=vp8,opus;base64,GkXf'' \<and>
   base64_decode (js ''GkXf'') = Some (bytes recorded_video) \<and>
   fileToGenerativePart (fileapi_reader 0 recorded_video) recorded_video =
     Fulfilled \<lparr>mimeType = js ''video/webm;codecs=vp8,opus'',
                data = Some (js ''opus;base64'')\<rparr> \<and>
   base64_decode (js ''opus;base64'') = None"
  by (simp add: fileapi_reader_def fileToGenerativePart_string dataURL_def recorded_video_def
        js_def comma_def at_index_def base64_char_def base64_alphabet_def pad_def
        base64_value_def)

subsection \<open>C3: a response that does not parse\<close>

text \<open>
  Claim C3: when the provider's text, once trimmed, is not valid JSON, \<open>analyzeFights\<close>
  rejects with an error whose message is the fixed string of line 141, whatever the
  text and whatever the message of the parser's exception; the trimmed text and the
  exception go to \<open>console.error\<close> and nowhere else.
\<close>

theorem unparsable_response_format_error:
  assumes "fileToGenerativePart (readAsDataURL w 0 fighterVideo) fighterVideo = Fulfilled p1"
    and "fileToGenerativePart (readAsDataURL w 1 opponentVideo) opponentVideo = Fulfilled p2"
    and "generateContent w
           (generateContentParameters fighterName opponentName weightClass p1 p2) =
         Fulfilled resp"
    and "responseText resp = Some text"
    and "parse_json (trim text) = None"
  shows "analyzeFights w fighterName opponentName weightClass fighterVideo opponentVideo =
           (Rejected (ErrorObject (js ''Error'')
              (js ''The analysis result from the AI was not in the expected format. Please try again.'')),
            [GenerateContentCall
               (generateContentParameters fighterName opponentName weightClass p1 p2),
             ConsoleError
               [LogString (js ''Failed to parse JSON response from Gemini:''),
                LogString (trim text),
                LogThrown (ErrorObject (js ''SyntaxError'') (syntaxErrorMessage w (trim text)))]])"
  using assms(3-5)
  by (simp add: analyzeFights_encoded [OF assms(1,2)] JSON_parse_def format_error_message_def)

text \<open>The theorem at an answer that was cut off.\<close>

theorem unparsable_response_format_error_witness:
  "parse_json (trim truncated_answer) = None \<and>
   analyzeFights (answering (Fulfilled \<lparr>responseText = Some truncated_answer\<rparr>))
       (js ''Jones'') (js ''Smith'') (js ''Heavyweight (265 lbs)'') jones_video smith_video =
     (Rejected (ErrorObject (js ''Error'')
        (js ''The analysis result from the AI was not in the expected format. Please try again.'')),
      [GenerateContentCall
         (generateContentParameters (js ''Jones'') (js ''Smith'') (js ''Heavyweight (265 lbs)'')
            \<lparr>mimeType = js ''video/mp4'', data = Some (js ''AAABug=='')\<rparr>
            \<lparr>mimeType = js ''video/mp4'', data = Some (js ''GkXf'')\<rparr>),
       ConsoleError
         [LogString (js ''Failed to parse JSON response from Gemini:''),
          LogString (trim truncated_answer),
          LogThrown (ErrorObject (js ''SyntaxError'')
            (js ''Unexpected token or end of JSON input''))]])"
  using unparsable_response_format_error
          [OF answering_parts, of "Fulfilled \<lparr>responseText = Some truncated_answer\<rparr>"
             "js ''Jones''" "js ''Smith''" "js ''Heavyweight (265 lbs)''"
             "\<lparr>responseText = Some truncated_answer\<rparr>" truncated_answer]
  by (simp add: answering_simps parse_truncated)

subsection \<open>C4: a failure of the provider\<close>

text \<open>
  Claim C4: when the provider's call rejects, \<open>analyzeFights\<close> rejects with the very
  value the provider rejected with; the request was sent once, and nothing else
  happened.
\<close>

theorem provider_failure_propagates:
  assumes "fileToGenerativePart (readAsDataURL w 0 fighterVideo) fighterVideo = Fulfilled p1"
    and "fileToGenerativePart (readAsDataURL w 1 opponentVideo) opponentVideo = Fulfilled p2"
    and "generateContent w
           (generateContentParameters fighterName opponentName weightClass p1 p2) = Rejected e"
  shows "analyzeFights w fighterName opponentName weightClass fighterVideo opponentVideo =
           (Rejected e,
            [GenerateContentCall
               (generateContentParameters fighterName opponentName weightClass p1 p2)])"
  using assms(3) by (simp add: analyzeFights_encoded [OF assms(1,2)])

text \<open>The theorem at a provider that is out of quota.\<close>

theorem provider_failure_propagates_witness:
  "analyzeFights (answering (Rejected quota_error)) (js ''Jones'') (js ''Smith'')
       (js ''Heavyweight (265 lbs)'') jones_video smith_video =
     (Rejected quota_error,
      [GenerateContentCall
         (generateContentParameters (js ''Jones'') (js ''Smith'') (js ''Heavyweight (265 lbs)'')
            \<lparr>mimeType = js ''video/mp4'', data = Some (js ''AAABug=='')\<rparr>
            \<lparr>mimeType = js ''video/mp4'', data = Some (js ''GkXf'')\<rparr>)])"
  by (rule provider_failure_propagates) (simp_all add: answering_simps jones_part smith_part)

subsection \<open>C5: the names and the weight class in the instruction\<close>

text \<open>
  Claim C5: the first part of every request \<open>analyzeFights\<close> sends is the instruction,
  and both names and the weight class stand in it verbatim, as contiguous pieces of its
  text. This holds for empty strings too.
\<close>

theorem prompt_carries_names_and_weight_class:
  assumes "GenerateContentCall req \<in>
             set (snd (analyzeFights w fighterName opponentName weightClass
                         fighterVideo opponentVideo))"
  shows "\<exists>instruction rest.
           parts (contents req) = TextPart instruction # rest \<and>
           sublist fighterName instruction \<and>
           sublist opponentName instruction \<and>
           sublist weightClass instruction"
proof -
  from analyzeFights_calls [OF assms] obtain p1 p2 where
    "req = generateContentParameters fighterName opponentName weightClass p1 p2"
    by blast
  then show ?thesis
    by (simp add: generateContentParameters_def sublist_prompt)
qed

text \<open>The theorem at the request of the end-to-end scenario.\<close>

theorem prompt_carries_names_and_weight_class_witness:
  "\<exists>instruction rest.
     parts (contents
       (generateContentParameters (js ''Jones'') (js ''Smith'') (js ''Heavyweight (265 lbs)'')
            \<lparr>mimeType = js ''video/mp4'', data = Some (js ''AAABug=='')\<rparr>
            \<lparr>mimeType = js ''video/mp4'', data = Some (js ''GkXf'')\<rparr>)) =
       TextPart instruction # rest \<and>
     sublist (js ''Jones'') instruction \<and>
     sublist (js ''Smith'') instruction \<and>
     sublist (js ''Heavyweight (265 lbs)'') instruction"
  using prompt_carries_names_and_weight_class [OF example_call] .

subsection \<open>C6: a failure of the encoder\<close>

text \<open>
  Claim C6: when the encoding of the first video fails, or the first is encoded and the
  encoding of the second fails, \<open>analyzeFights\<close> rejects with the encoder's rejection,
  and no request is sent to the provider (the call has no effect at all).
\<close>

theorem encoding_failure_propagates:
  assumes "fileToGenerativePart (readAsDataURL w 0 fighterVideo) fighterVideo = Rejected e \<or>
           (\<exists>p1. fileToGenerativePart (readAsDataURL w 0 fighterVideo) fighterVideo
                    = Fulfilled p1 \<and>
                 fileToGenerativePart (readAsDataURL w 1 opponentVideo) opponentVideo
                    = Rejected e)"
  shows "analyzeFights w fighterName opponentName weightClass fighterVideo opponentVideo =
           (Rejected e, [])"
  using assms analyzeFights_first_rejected analyzeFights_second_rejected by blast

text \<open>The theorem in a world where the second video cannot be read.\<close>

theorem encoding_failure_propagates_witness:
  "fileToGenerativePart (readAsDataURL second_read_fails 0 jones_video) jones_video =
     Fulfilled \<lparr>mimeType = js ''video/mp4'', data = Some (js ''AAABug=='')\<rparr> \<and>
   fileToGenerativePart (readAsDataURL second_read_fails 1 smith_video) smith_video =
     Rejected (EventObject (ProgressEvent (js ''NotReadableError''))) \<and>
   analyzeFights second_read_fails (js ''Jones'') (js ''Smith'') (js ''Heavyweight (265 lbs)'')
       jones_video smith_video =
     (Rejected (EventObject (ProgressEvent (js ''NotReadableError''))), [])"
proof -
  have 1: "fileToGenerativePart (readAsDataURL second_read_fails 0 jones_video) jones_video =
     Fulfilled \<lparr>mimeType = js ''video/mp4'', data = Some (js ''AAABug=='')\<rparr>"
    by (simp add: second_read_fails_def jones_part)
  have 2: "fileToGenerativePart (readAsDataURL second_read_fails 1 smith_video) smith_video =
     Rejected (EventObject (ProgressEvent (js ''NotReadableError'')))"
    by (simp add: second_read_fails_def fileToGenerativePart_Failed)
  from 1 2 have
    "fileToGenerativePart (readAsDataURL second_read_fails 0 jones_video) jones_video
         = Rejected (EventObject (ProgressEvent (js ''NotReadableError''))) \<or>
       (\<exists>p1. fileToGenerativePart (readAsDataURL second_read_fails 0 jones_video) jones_video
               = Fulfilled p1 \<and>
             fileToGenerativePart (readAsDataURL second_read_fails 1 smith_video) smith_video
               = Rejected (EventObject (ProgressEvent (js ''NotReadableError''))))"
    by blast
  from encoding_failure_propagates [OF this] 1 2 show ?thesis by blast
qed

subsection \<open>C7: when the encoder fails\<close>

text \<open>
  Claim C7: the encoder fails exactly when the read errors or its result is not the
  expected base64-encoded text, and in every other case it resolves with a well-formed
  payload. The code rejects exactly when the read errors or the result is not a string
  (\<open>encoder_rejects_exactly\<close>), and on a file whose type has no comma the payload it
  resolves with is well formed (\<open>encoder_payload_well_formed\<close>). On a file whose type
  contains a comma it does neither: the read succeeds, its result is a data URL that
  ends with the base64 text of the bytes, the encoder does not fail, and the data of its
  payload is a piece of the prefix, which is not base64 text. This is the
  \<open>reader.result.split(",")[1]\<close> of C2 again.
\<close>

theorem recorded_video_payload_malformed:
  "fileapi_reader 0 recorded_video =
     Loaded (ResultString
       (js ''data:video/webm;codecs=vp8,opus;base64,'' @ base64_encode (bytes recorded_video))) \<and>
   base64_decode (base64_encode (bytes recorded_video)) = Some (bytes recorded_video) \<and>
   fileToGenerativePart (fileapi_reader 0 recorded_video) recorded_video =
     Fulfilled \<lparr>mimeType = js ''video/webm;codecs=vp8,opus'',
                data = Some (js ''opus;base64'')\<rparr> \<and>
   \<not> well_formed_payload
       \<lparr>mimeType = js ''video/webm;codecs=vp8,opus'', data = Some (js ''opus;base64'')\<rparr>"
  by (simp add: fileapi_reader_def fileToGenerativePart_string dataURL_def recorded_video_def
        js_def comma_def at_index_def base64_char_def base64_alphabet_def pad_def
        base64_value_def well_formed_payload_def)

subsection \<open>C8: the result is the parsed text\<close>

text \<open>
  Claim C8: whenever \<open>analyzeFights\<close> fulfils, its value is what \<open>JSON.parse\<close> makes of
  the trimmed text of the response the provider gave to the request; nothing else is
  done to it.
\<close>

theorem result_is_parsed_trimmed_text:
  assumes "fst (analyzeFights w fighterName opponentName weightClass fighterVideo opponentVideo)
             = Fulfilled v"
  shows "\<exists>p1 p2 resp text.
     fileToGenerativePart (readAsDataURL w 0 fighterVideo) fighterVideo = Fulfilled p1 \<and>
     fileToGenerativePart (readAsDataURL w 1 opponentVideo) opponentVideo = Fulfilled p2 \<and>
     generateContent w (generateContentParameters fighterName opponentName weightClass p1 p2)
       = Fulfilled resp \<and>
     responseText resp = Some text \<and> parse_json (trim text) = Some v"
  using assms
  by (auto simp: analyzeFights_def Let_def JSON_parse_def
           split: promise.splits option.splits sum.splits)

text \<open>The theorem at the end-to-end scenario.\<close>

theorem result_is_parsed_trimmed_text_witness:
  "fst (analyzeFights (answering (Fulfilled \<lparr>responseText = Some full_answer\<rparr>))
         (js ''Jones'') (js ''Smith'') (js ''Heavyweight (265 lbs)'') jones_video smith_video) =
     Fulfilled full_analysis \<and>
   (\<exists>p1 p2 resp text.
     fileToGenerativePart
       (readAsDataURL (answering (Fulfilled \<lparr>responseText = Some full_answer\<rparr>)) 0 jones_video)
       jones_video = Fulfilled p1 \<and>
     fileToGenerativePart
       (readAsDataURL (answering (Fulfilled \<lparr>responseText = Some full_answer\<rparr>)) 1 smith_video)
       smith_video = Fulfilled p2 \<and>
     generateContent (answering (Fulfilled \<lparr>responseText = Some full_answer\<rparr>))
       (generateContentParameters (js ''Jones'') (js ''Smith'') (js ''Heavyweight (265 lbs)'') p1 p2)
       = Fulfilled resp \<and>
     responseText resp = Some text \<and> parse_json (trim text) = Some full_analysis)"
proof -
  have f: "fst (analyzeFights (answering (Fulfilled \<lparr>responseText = Some full_answer\<rparr>))
         (js ''Jones'') (js ''Smith'') (js ''Heavyweight (265 lbs)'') jones_video smith_video) =
     Fulfilled full_analysis"
    by (simp add: analyzeFights_answer [OF parse_full])
  from f result_is_parsed_trimmed_text [OF f] show ?thesis by blast
qed

subsection \<open>C9: the schema of the response\<close>

text \<open>
  Claim C9: the schema attached to every request \<open>analyzeFights\<close> sends is the one of
  lines 71 to 114, and what it declares is an object with exactly the four substructures
  of the data model: two fighter profiles, a head-to-head and a game plan, each with
  exactly the field names and types of the data model (the order of the fields apart).
\<close>

theorem response_schema_declares_analysis_result:
  assumes "GenerateContentCall req \<in>
             set (snd (analyzeFights w fighterName opponentName weightClass
                         fighterVideo opponentVideo))"
  shows "configResponseSchema (config req) = responseSchema fighterName opponentName \<and>
         same_shape (shape_of (configResponseSchema (config req))) AnalysisResult"
proof -
  from analyzeFights_calls [OF assms] obtain p1 p2 where
    "req = generateContentParameters fighterName opponentName weightClass p1 p2"
    by blast
  then show ?thesis
    by (simp add: generateContentParameters_def responseSchema_shape)
qed

text \<open>The theorem at the request of the end-to-end scenario.\<close>

theorem response_schema_declares_analysis_result_witness:
  "configResponseSchema (config
     (generateContentParameters (js ''Jones'') (js ''Smith'') (js ''Heavyweight (265 lbs)'')
            \<lparr>mimeType = js ''video/mp4'', data = Some (js ''AAABug=='')\<rparr>
            \<lparr>mimeType = js ''video/mp4'', data = Some (js ''GkXf'')\<rparr>)) =
     responseSchema (js ''Jones'') (js ''Smith'') \<and>
   same_shape
     (shape_of (configResponseSchema (config
        (generateContentParameters (js ''Jones'') (js ''Smith'') (js ''Heavyweight (265 lbs)'')
            \<lparr>mimeType = js ''video/mp4'', data = Some (js ''AAABug=='')\<rparr>
            \<lparr>mimeType = js ''video/mp4'', data = Some (js ''GkXf'')\<rparr>))))
     AnalysisResult"
  using response_schema_declares_analysis_result [OF example_call] .

subsection \<open>C10: the model and the parts of the request\<close>

text \<open>
  Claim C10: every request \<open>analyzeFights\<close> sends names the model \<open>gemini-2.5-flash\<close>
  and has exactly five parts, in this order: the instruction, the label of the
  fighter's video, the payload of the fighter's video, the label of the opponent's
  video, and the payload of the opponent's video.
\<close>

theorem request_model_and_parts:
  assumes "GenerateContentCall req \<in>
             set (snd (analyzeFights w fighterName opponentName weightClass
                         fighterVideo opponentVideo))"
  shows "model req = js ''gemini-2.5-flash'' \<and>
     (\<exists>p1 p2.
        fileToGenerativePart (readAsDataURL w 0 fighterVideo) fighterVideo = Fulfilled p1 \<and>
        fileToGenerativePart (readAsDataURL w 1 opponentVideo) opponentVideo = Fulfilled p2 \<and>
        parts (contents req) =
          [TextPart (prompt fighterName opponentName weightClass),
           TextPart (js ''\<newline>\<newline>Fighter Video ('' @ fighterName @ js ''):''),
           InlineDataPart p1,
           TextPart (js ''\<newline>\<newline>Opponent Video ('' @ opponentName @ js ''):''),
           InlineDataPart p2])"
proof -
  from analyzeFights_calls [OF assms] obtain p1 p2 where
    "fileToGenerativePart (readAsDataURL w 0 fighterVideo) fighterVideo = Fulfilled p1"
    "fileToGenerativePart (readAsDataURL w 1 opponentVideo) opponentVideo = Fulfilled p2"
    "req = generateContentParameters fighterName opponentName weightClass p1 p2"
    by blast
  then show ?thesis
    by (simp add: generateContentParameters_def)
qed

text \<open>The theorem at the request of the end-to-end scenario.\<close>

theorem request_model_and_parts_witness:
  "model (generateContentParameters (js ''Jones'') (js ''Smith'') (js ''Heavyweight (265 lbs)'')
            \<lparr>mimeType = js ''video/mp4'', data = Some (js ''AAABug=='')\<rparr>
            \<lparr>mimeType = js ''video/mp4'', data = Some (js ''GkXf'')\<rparr>) = js ''gemini-2.5-flash'' \<and>
   parts (contents (generateContentParameters (js ''Jones'') (js ''Smith'') (js ''Heavyweight (265 lbs)'')
            \<lparr>mimeType = js ''video/mp4'', data = Some (js ''AAABug=='')\<rparr>
            \<lparr>mimeType = js ''video/mp4'', data = Some (js ''GkXf'')\<rparr>)) =
     [TextPart (prompt (js ''Jones'') (js ''Smith'') (js ''Heavyweight (265 lbs)'')),
      TextPart (js ''\<newline>\<newline>Fighter Video ('' @ js ''Jones'' @ js ''):''),
      InlineDataPart \<lparr>mimeType = js ''video/mp4'', data = Some (js ''AAABug=='')\<rparr>,
      TextPart (js ''\<newline>\<newline>Opponent Video ('' @ js ''Smith'' @ js ''):''),
      InlineDataPart \<lparr>mimeType = js ''video/mp4'', data = Some (js ''GkXf'')\<rparr>]"
  using request_model_and_parts [OF example_call]
  by (simp add: answering_parts)

end
